theory Spec2Isabelle
  imports Main "HOL-Library.Word"
begin

section \<open>JavaScript values used by the page\<close>

text \<open>
  A JavaScript string is a sequence of 16-bit code units. Literals of the source that are
  plain ASCII are written through \<open>js\<close>; the two non-ASCII tokens of the source (the
  horizontal ellipsis U+2026 and the warning sign U+26A0 U+FE0F) are spelled as code units.
\<close>

type_synonym js_string = "16 word list"

definition js :: "string \<Rightarrow> js_string" where
  "js s = map of_char s"

definition ellipsis :: js_string where
  "ellipsis = [0x2026]"

definition warning_sign :: js_string where
  "warning_sign = [0x26A0, 0xFE0F]"

text \<open>\<open>a || b\<close> on strings: the empty string is the only falsy string.\<close>

definition or_else :: "js_string \<Rightarrow> js_string \<Rightarrow> js_string" where
  "or_else a b = (if a \<noteq> [] then a else b)"

text \<open>
  \<open>String.prototype.trim\<close> strips the code units ECMAScript calls WhiteSpace
  (TAB, VT, FF, the space separators, ZWNBSP) and LineTerminator (LF, CR, LS, PS)
  from both ends.
\<close>

definition is_white_space :: "16 word \<Rightarrow> bool" where
  "is_white_space c = (c \<in> set [0x9, 0xB, 0xC, 0x20, 0xA0, 0x1680,
      0x2000, 0x2001, 0x2002, 0x2003, 0x2004, 0x2005, 0x2006, 0x2007, 0x2008, 0x2009, 0x200A,
      0x202F, 0x205F, 0x3000, 0xFEFF, 0xA, 0xD, 0x2028, 0x2029])"

definition trim :: "js_string \<Rightarrow> js_string" where
  "trim s = rev (dropWhile is_white_space (rev (dropWhile is_white_space s)))"

text \<open>
  An entry of a \<open>sources\<close> array as it arrives from JSON: a string, or \<open>null\<close>
  (\<open>None\<close>). \<open>Boolean(x)\<close> is false for \<open>null\<close> and for the empty string.
\<close>

type_synonym js_entry = "js_string option"

fun Boolean_entry :: "js_entry \<Rightarrow> bool" where
  "Boolean_entry None = False"
| "Boolean_entry (Some s) = (s \<noteq> [])"

text \<open>What React prints for \<open>{src}\<close>: nothing for \<open>null\<close>, the string otherwise.\<close>

fun entry_text :: "js_entry \<Rightarrow> js_string" where
  "entry_text None = []"
| "entry_text (Some s) = s"

section \<open>The network as the handlers see it\<close>

text \<open>
  \<open>await fetch(...)\<close> either rejects with an \<open>Error\<close> (only its \<open>message\<close> is read),
  or yields a response with a numeric status, whose body the handler reads either with
  \<open>response.text()\<close> or with \<open>response.json()\<close>. Reading the JSON payload may itself
  throw (\<open>Inl\<close> carries that error's message); otherwise it yields the payload.
  \<open>response.ok\<close> holds exactly for the statuses 200 to 299.
\<close>

datatype 'a fetch_result =
    Rejected js_string
  | Response nat js_string "js_string + 'a"

definition response_ok :: "nat \<Rightarrow> bool" where
  "response_ok st = (200 \<le> st \<and> st \<le> 299)"

text \<open>The payload of /ask and of /chat: \<open>{answer, sources}\<close>, either of which may be absent.\<close>

record answer_json =
  json_answer :: "js_string option"
  json_sources :: "js_entry list option"

text \<open>
  The payload of /upload. The page casts it to \<open>{document_id: string}\<close> without
  looking at it, so the field is whatever the backend sent: a string, or nothing
  (\<open>None\<close> for an absent field and for \<open>null\<close>).
\<close>

record upload_json =
  document_id :: "js_string option"

text \<open>
  A button with \<open>disabled\<close> set does not run its \<open>onClick\<close> handler. The guard of the
  page is nothing else; a click that it swallows is reported as \<open>AlreadyInFlight\<close>.
\<close>

datatype guard_error = AlreadyInFlight

section \<open>Session variant: the YouTube page\<close>

datatype loading_kind = Index | Ask

record yt_state =
  youtubeUrl :: js_string
  yt_question :: js_string
  answer :: js_string
  yt_sources :: "js_entry list"
  status :: js_string
  yt_error :: js_string
  loading :: "loading_kind option"

datatype yt_request =
    PostPrepare js_string
  | PostAsk js_string js_string

text \<open>\<open>callBackend\<close>: \<open>Inl m\<close> is a thrown \<open>Error\<close> with message \<open>m\<close>.\<close>

definition callBackend :: "'a fetch_result \<Rightarrow> js_string + 'a" where
  "callBackend r =
     (case r of
        Rejected m \<Rightarrow> Inl m
      | Response st body j \<Rightarrow>
          if \<not> response_ok st then Inl (or_else body (js ''Request failed.''))
          else j)"

text \<open>
  Every handler is an \<open>async\<close> function with one suspension point, the network call.
  \<open>_start\<close> is the part that runs inside the click, up to the \<open>await\<close>; it returns the
  new state and the request it issued, if any. \<open>_resume\<close> is the part that runs when the
  call settles: the rest of \<open>try\<close>, or \<open>catch\<close>, and then \<open>finally\<close>.
\<close>

definition prepareVideo_start :: "yt_state \<Rightarrow> yt_state \<times> yt_request option" where
  "prepareVideo_start s =
     (if youtubeUrl s = [] then
        (s\<lparr>yt_error := js ''Paste a YouTube URL first.''\<rparr>, None)
      else
        (s\<lparr>loading := Some Index,
           status := js ''Indexing video'' @ ellipsis,
           yt_error := []\<rparr>,
         Some (PostPrepare (youtubeUrl s))))"

definition prepareVideo_resume :: "'a fetch_result \<Rightarrow> yt_state \<Rightarrow> yt_state" where
  "prepareVideo_resume r s =
     (case callBackend r of
        Inr _ \<Rightarrow> s\<lparr>status := js ''Video ready. Ask away!'', loading := None\<rparr>
      | Inl m \<Rightarrow> s\<lparr>status := [], yt_error := m, loading := None\<rparr>)"

definition askVideoQuestion_start :: "yt_state \<Rightarrow> yt_state \<times> yt_request option" where
  "askVideoQuestion_start s =
     (if youtubeUrl s = [] \<or> yt_question s = [] then
        (s\<lparr>yt_error := js ''Enter both the URL and a question.''\<rparr>, None)
      else
        (s\<lparr>loading := Some Ask,
           status := js ''Thinking'' @ ellipsis,
           yt_error := []\<rparr>,
         Some (PostAsk (youtubeUrl s) (yt_question s))))"

definition askVideoQuestion_resume :: "answer_json fetch_result \<Rightarrow> yt_state \<Rightarrow> yt_state" where
  "askVideoQuestion_resume r s =
     (case callBackend r of
        Inr d \<Rightarrow>
          s\<lparr>answer := (case json_answer d of None \<Rightarrow> [] | Some a \<Rightarrow> a),
            yt_sources := (case json_sources d of None \<Rightarrow> [] | Some xs \<Rightarrow> xs),
            status := [],
            loading := None\<rparr>
      | Inl m \<Rightarrow>
          s\<lparr>answer := [], yt_sources := [], status := [], yt_error := m, loading := None\<rparr>)"

text \<open>
  The list items under "Sources:" of the answer card: the card is there only for a
  non-empty answer, the list only for a non-empty array, and an item shows
  \<open>src || "Transcript chunk"\<close>.
\<close>

definition yt_rendered_sources :: "yt_state \<Rightarrow> js_string list" where
  "yt_rendered_sources s =
     (if answer s \<noteq> [] \<and> yt_sources s \<noteq> [] then
        map (\<lambda>src. if Boolean_entry src then entry_text src else js ''Transcript chunk'')
          (yt_sources s)
      else [])"

subsection \<open>The page with its pending calls\<close>

text \<open>
  The page state together with the calls that were issued and have not settled yet, in
  the order they were issued. Events are what the browser delivers: edits of the two
  inputs, clicks on the two buttons, and the settling of a pending call.
\<close>

record yt_page =
  yt_ui :: yt_state
  yt_pending :: "yt_request list"

datatype yt_event =
    SetYoutubeUrl js_string
  | SetQuestion js_string
  | ClickPrepare
  | ClickAsk
  | YtSettle nat "answer_json fetch_result"

definition yt_issue :: "yt_page \<Rightarrow> yt_state \<times> yt_request option \<Rightarrow> yt_page" where
  "yt_issue p out =
     \<lparr>yt_ui = fst out,
      yt_pending = yt_pending p @ (case snd out of None \<Rightarrow> [] | Some q \<Rightarrow> [q])\<rparr>"

definition click_prepare :: "yt_page \<Rightarrow> guard_error + yt_page" where
  "click_prepare p =
     (if loading (yt_ui p) = Some Index then Inl AlreadyInFlight
      else Inr (yt_issue p (prepareVideo_start (yt_ui p))))"

definition click_ask :: "yt_page \<Rightarrow> guard_error + yt_page" where
  "click_ask p =
     (if loading (yt_ui p) = Some Ask then Inl AlreadyInFlight
      else Inr (yt_issue p (askVideoQuestion_start (yt_ui p))))"

definition drop_nth :: "nat \<Rightarrow> 'a list \<Rightarrow> 'a list" where
  "drop_nth i xs = take i xs @ drop (Suc i) xs"

definition yt_settle :: "nat \<Rightarrow> answer_json fetch_result \<Rightarrow> yt_page \<Rightarrow> yt_page" where
  "yt_settle i r p =
     (if i < length (yt_pending p) then
        (case yt_pending p ! i of
           PostPrepare _ \<Rightarrow>
             \<lparr>yt_ui = prepareVideo_resume r (yt_ui p), yt_pending = drop_nth i (yt_pending p)\<rparr>
         | PostAsk _ _ \<Rightarrow>
             \<lparr>yt_ui = askVideoQuestion_resume r (yt_ui p), yt_pending = drop_nth i (yt_pending p)\<rparr>)
      else p)"

fun yt_step :: "yt_event \<Rightarrow> yt_page \<Rightarrow> yt_page" where
  "yt_step (SetYoutubeUrl u) p = p\<lparr>yt_ui := (yt_ui p)\<lparr>youtubeUrl := u\<rparr>\<rparr>"
| "yt_step (SetQuestion q) p = p\<lparr>yt_ui := (yt_ui p)\<lparr>yt_question := q\<rparr>\<rparr>"
| "yt_step ClickPrepare p = (case click_prepare p of Inl _ \<Rightarrow> p | Inr p' \<Rightarrow> p')"
| "yt_step ClickAsk p = (case click_ask p of Inl _ \<Rightarrow> p | Inr p' \<Rightarrow> p')"
| "yt_step (YtSettle i r) p = yt_settle i r p"

fun yt_run :: "yt_event list \<Rightarrow> yt_page \<Rightarrow> yt_page" where
  "yt_run [] p = p"
| "yt_run (e # es) p = yt_run es (yt_step e p)"

definition yt_initial :: yt_page where
  "yt_initial =
     \<lparr>yt_ui = \<lparr>youtubeUrl = [], yt_question = [], answer = [], yt_sources = [],
               status = [], yt_error = [], loading = None\<rparr>,
      yt_pending = []\<rparr>"

fun is_prepare :: "yt_request \<Rightarrow> bool" where
  "is_prepare (PostPrepare _) = True"
| "is_prepare (PostAsk _ _) = False"

fun is_ask :: "yt_request \<Rightarrow> bool" where
  "is_ask (PostPrepare _) = False"
| "is_ask (PostAsk _ _) = True"

section \<open>Document variant: the PDF and text chat page\<close>

datatype source_type = Pdf | Txt | Text

datatype role = User | Assistant

record message =
  msg_id :: js_string
  role :: role
  content :: js_string
  sources :: "js_entry list option"

text \<open>A \<open>File\<close> picked in a file input; the page reads nothing of it but its name.\<close>

datatype js_file = File js_string

text \<open>
  In \<open>documentId\<close>, \<open>None\<close> stands for both \<open>null\<close> and \<open>undefined\<close>: the page
  only tests \<open>Boolean(documentId)\<close>, and sends the value in no request while that test
  is false.
\<close>

record doc_state =
  sourceType :: source_type
  pdfFile :: "js_file option"
  txtFile :: "js_file option"
  plainText :: js_string
  documentId :: "js_string option"
  messages :: "message list"
  question :: js_string
  uploadStatus :: js_string
  chatStatus :: js_string
  error :: "js_string option"
  isUploading :: bool
  isSending :: bool
  fileInputKey :: nat

text \<open>The one field appended to the \<open>FormData\<close>: \<open>pdf_file\<close>, \<open>txt_file\<close> or \<open>plain_text\<close>.\<close>

datatype form_data = Pdf_file js_file | Txt_file js_file | Plain_text js_string

text \<open>\<open>PostChat q d\<close> is the body \<open>{question: q, document_id: d}\<close>.\<close>

datatype doc_request =
    PostUpload form_data
  | PostChat js_string "js_string option"

definition hasActiveDocument :: "doc_state \<Rightarrow> bool" where
  "hasActiveDocument s = (case documentId s of None \<Rightarrow> False | Some d \<Rightarrow> d \<noteq> [])"

definition resetFileInputs :: "doc_state \<Rightarrow> doc_state" where
  "resetFileInputs s =
     s\<lparr>pdfFile := None, txtFile := None, plainText := [], fileInputKey := fileInputKey s + 1\<rparr>"

definition switchSource :: "source_type \<Rightarrow> doc_state \<Rightarrow> doc_state" where
  "switchSource v s = s\<lparr>sourceType := v, error := None\<rparr>"

text \<open>
  The awaited part of a \<open>try\<close> block: the call, the \<open>response.ok\<close> test with its
  \<open>throw\<close>, and \<open>response.json()\<close>. \<open>Inl m\<close> is what \<open>catch\<close> receives.
\<close>

definition fetch_json :: "js_string \<Rightarrow> 'a fetch_result \<Rightarrow> js_string + 'a" where
  "fetch_json fallback r =
     (case r of
        Rejected m \<Rightarrow> Inl m
      | Response st body j \<Rightarrow>
          if \<not> response_ok st then Inl (or_else body fallback)
          else j)"

definition handleUpload_start :: "doc_state \<Rightarrow> doc_state \<times> doc_request option" where
  "handleUpload_start s0 =
     (let s = s0\<lparr>error := None, uploadStatus := []\<rparr>;
          send = (\<lambda>fd. (s\<lparr>isUploading := True,
                            uploadStatus := js ''Uploading and indexing'' @ ellipsis\<rparr>,
                         Some (PostUpload fd)))
      in case sourceType s of
           Pdf \<Rightarrow>
             (case pdfFile s of
                None \<Rightarrow> (s\<lparr>error := Some (js ''Select a PDF file first.'')\<rparr>, None)
              | Some f \<Rightarrow> send (Pdf_file f))
         | Txt \<Rightarrow>
             (case txtFile s of
                None \<Rightarrow> (s\<lparr>error := Some (js ''Select a TXT file first.'')\<rparr>, None)
              | Some f \<Rightarrow> send (Txt_file f))
         | Text \<Rightarrow>
             (if trim (plainText s) = [] then
                (s\<lparr>error := Some (js ''Paste some text before uploading.'')\<rparr>, None)
              else send (Plain_text (trim (plainText s)))))"

definition handleUpload_resume :: "upload_json fetch_result \<Rightarrow> doc_state \<Rightarrow> doc_state" where
  "handleUpload_resume r s =
     (case fetch_json (js ''Upload failed.'') r of
        Inr d \<Rightarrow>
          (resetFileInputs
             (s\<lparr>documentId := document_id d,
                messages := [],
                question := [],
                uploadStatus := js ''Document ready. Start chatting!''\<rparr>))
          \<lparr>isUploading := False\<rparr>
      | Inl m \<Rightarrow> s\<lparr>uploadStatus := [], error := Some m, isUploading := False\<rparr>)"

text \<open>
  \<open>generateId()\<close> draws on the clock or on randomness; the identifier it returns is an
  argument here (\<open>uid\<close> for the user turn, \<open>aid\<close> for the assistant turn).
\<close>

definition handleSendQuestion_start ::
  "js_string \<Rightarrow> doc_state \<Rightarrow> doc_state \<times> doc_request option" where
  "handleSendQuestion_start uid s =
     (let trimmedQuestion = trim (question s) in
      if \<not> hasActiveDocument s then
        (s\<lparr>error := Some (js ''Upload a document before chatting.'')\<rparr>, None)
      else if trimmedQuestion = [] then
        (s\<lparr>error := Some (js ''Type a question first.'')\<rparr>, None)
      else
        (s\<lparr>error := None,
           chatStatus := js ''Thinking'' @ ellipsis,
           isSending := True,
           messages := messages s @
             [\<lparr>msg_id = uid, role = User, content = trimmedQuestion, sources = None\<rparr>],
           question := []\<rparr>,
         Some (PostChat trimmedQuestion (documentId s))))"

definition handleSendQuestion_resume ::
  "js_string \<Rightarrow> answer_json fetch_result \<Rightarrow> doc_state \<Rightarrow> doc_state" where
  "handleSendQuestion_resume aid r s =
     (case fetch_json (js ''Chat request failed.'') r of
        Inr d \<Rightarrow>
          s\<lparr>messages := messages s @
              [\<lparr>msg_id = aid, role = Assistant,
                content =
                  or_else (case json_answer d of None \<Rightarrow> [] | Some a \<Rightarrow> trim a)
                    (js ''I wasn't able to craft a response.''),
                sources = Some (case json_sources d of None \<Rightarrow> [] | Some xs \<Rightarrow> xs)\<rparr>],
            chatStatus := [],
            isSending := False\<rparr>
      | Inl m \<Rightarrow>
          s\<lparr>messages := messages s @
              [\<lparr>msg_id = aid, role = Assistant,
                content = warning_sign @ js '' '' @ m,
                sources = None\<rparr>],
            chatStatus := [],
            isSending := False\<rparr>)"

text \<open>
  The list items under "Sources:" of one bubble: \<open>(message.sources ?? []).filter(Boolean)\<close>,
  shown when non-empty, one item per entry.
\<close>

definition rendered_sources :: "message \<Rightarrow> js_string list" where
  "rendered_sources m =
     map entry_text
       (filter Boolean_entry (case sources m of None \<Rightarrow> [] | Some xs \<Rightarrow> xs))"

subsection \<open>The page with its pending calls\<close>

record doc_page =
  doc_ui :: doc_state
  doc_pending :: "doc_request list"

datatype doc_event =
    SwitchSource source_type
  | SelectPdf "js_file option"
  | SelectTxt "js_file option"
  | SetPlainText js_string
  | SetChatQuestion js_string
  | ClickUpload
  | ClickSend js_string
  | UploadSettle nat "upload_json fetch_result"
  | ChatSettle nat js_string "answer_json fetch_result"

definition doc_issue :: "doc_page \<Rightarrow> doc_state \<times> doc_request option \<Rightarrow> doc_page" where
  "doc_issue p out =
     \<lparr>doc_ui = fst out,
      doc_pending = doc_pending p @ (case snd out of None \<Rightarrow> [] | Some q \<Rightarrow> [q])\<rparr>"

definition click_upload :: "doc_page \<Rightarrow> guard_error + doc_page" where
  "click_upload p =
     (if isUploading (doc_ui p) then Inl AlreadyInFlight
      else Inr (doc_issue p (handleUpload_start (doc_ui p))))"

definition click_send :: "js_string \<Rightarrow> doc_page \<Rightarrow> guard_error + doc_page" where
  "click_send uid p =
     (if isSending (doc_ui p) then Inl AlreadyInFlight
      else Inr (doc_issue p (handleSendQuestion_start uid (doc_ui p))))"

fun is_upload :: "doc_request \<Rightarrow> bool" where
  "is_upload (PostUpload _) = True"
| "is_upload (PostChat _ _) = False"

fun is_chat :: "doc_request \<Rightarrow> bool" where
  "is_chat (PostUpload _) = False"
| "is_chat (PostChat _ _) = True"

definition upload_settle :: "nat \<Rightarrow> upload_json fetch_result \<Rightarrow> doc_page \<Rightarrow> doc_page" where
  "upload_settle i r p =
     (if i < length (doc_pending p) \<and> is_upload (doc_pending p ! i) then
        \<lparr>doc_ui = handleUpload_resume r (doc_ui p), doc_pending = drop_nth i (doc_pending p)\<rparr>
      else p)"

definition chat_settle ::
  "nat \<Rightarrow> js_string \<Rightarrow> answer_json fetch_result \<Rightarrow> doc_page \<Rightarrow> doc_page" where
  "chat_settle i aid r p =
     (if i < length (doc_pending p) \<and> is_chat (doc_pending p ! i) then
        \<lparr>doc_ui = handleSendQuestion_resume aid r (doc_ui p),
         doc_pending = drop_nth i (doc_pending p)\<rparr>
      else p)"

fun doc_step :: "doc_event \<Rightarrow> doc_page \<Rightarrow> doc_page" where
  "doc_step (SwitchSource v) p = p\<lparr>doc_ui := switchSource v (doc_ui p)\<rparr>"
| "doc_step (SelectPdf f) p = p\<lparr>doc_ui := (doc_ui p)\<lparr>pdfFile := f\<rparr>\<rparr>"
| "doc_step (SelectTxt f) p = p\<lparr>doc_ui := (doc_ui p)\<lparr>txtFile := f\<rparr>\<rparr>"
| "doc_step (SetPlainText t) p = p\<lparr>doc_ui := (doc_ui p)\<lparr>plainText := t\<rparr>\<rparr>"
| "doc_step (SetChatQuestion q) p = p\<lparr>doc_ui := (doc_ui p)\<lparr>question := q\<rparr>\<rparr>"
| "doc_step ClickUpload p = (case click_upload p of Inl _ \<Rightarrow> p | Inr p' \<Rightarrow> p')"
| "doc_step (ClickSend uid) p = (case click_send uid p of Inl _ \<Rightarrow> p | Inr p' \<Rightarrow> p')"
| "doc_step (UploadSettle i r) p = upload_settle i r p"
| "doc_step (ChatSettle i aid r) p = chat_settle i aid r p"

fun doc_run :: "doc_event list \<Rightarrow> doc_page \<Rightarrow> doc_page" where
  "doc_run [] p = p"
| "doc_run (e # es) p = doc_run es (doc_step e p)"

definition doc_initial :: doc_page where
  "doc_initial =
     \<lparr>doc_ui = \<lparr>sourceType = Pdf, pdfFile = None, txtFile = None, plainText = [],
                documentId = None, messages = [], question = [], uploadStatus = [],
                chatStatus = [], error = None, isUploading = False, isSending = False,
                fileInputKey = 0\<rparr>,
      doc_pending = []\<rparr>"

section \<open>Vocabulary of the properties\<close>

text \<open>
  The two ways a call fails that the specification names: the transport rejects, or the
  status is outside 200 to 299. \<open>failure_message\<close> is the message such a failure carries:
  the transport's own, or the body text with the operation's fallback for an empty body.
\<close>

fun failed :: "'a fetch_result \<Rightarrow> bool" where
  "failed (Rejected m) = True"
| "failed (Response st body j) = (\<not> response_ok st)"

fun failure_message :: "js_string \<Rightarrow> 'a fetch_result \<Rightarrow> js_string" where
  "failure_message fallback (Rejected m) = m"
| "failure_message fallback (Response st body j) = (if body = [] then fallback else body)"

text \<open>
  Document variant: each flag is set exactly while one call of its kind is pending.
\<close>

definition doc_guard_inv :: "doc_page \<Rightarrow> bool" where
  "doc_guard_inv p =
     (length (filter is_upload (doc_pending p)) = (if isUploading (doc_ui p) then 1 else 0) \<and>
      length (filter is_chat (doc_pending p)) = (if isSending (doc_ui p) then 1 else 0))"

text \<open>
  Session variant: the single \<open>loading\<close> slot names a kind only while a call of that kind
  is pending (the converse fails, see below).
\<close>

definition yt_flag_inv :: "yt_page \<Rightarrow> bool" where
  "yt_flag_inv p =
     ((loading (yt_ui p) = Some Index \<longrightarrow> filter is_prepare (yt_pending p) \<noteq> []) \<and>
      (loading (yt_ui p) = Some Ask \<longrightarrow> filter is_ask (yt_pending p) \<noteq> []))"

text \<open>
  A document page in use: text pasted, a document indexed earlier, one turn in the
  transcript and a question typed with blanks around it.
\<close>

definition ready_doc :: doc_state where
  "ready_doc =
     (doc_ui doc_initial)
       \<lparr>sourceType := Text,
        plainText := js '' Paris is the capital of France. '',
        documentId := Some (js ''doc-0''),
        messages := [\<lparr>msg_id = js ''m0'', role = User, content = js ''Hello'', sources = None\<rparr>],
        question := js ''  What is X?  ''\<rparr>"

text \<open>
  Session variant: a URL and a question typed, Prepare clicked and then Ask clicked
  before the first call has settled.
\<close>

definition two_calls :: yt_page where
  "two_calls =
     yt_run [SetYoutubeUrl (js ''u''), SetQuestion (js ''q''), ClickPrepare, ClickAsk] yt_initial"

section \<open>Trimming\<close>

lemma trim_decompose:
  "s = takeWhile is_white_space s @ trim s @
         rev (takeWhile is_white_space (rev (dropWhile is_white_space s)))"
proof -
  let ?d = "dropWhile is_white_space s"
  have "rev ?d = takeWhile is_white_space (rev ?d) @ dropWhile is_white_space (rev ?d)"
    by simp
  then have "?d = rev (dropWhile is_white_space (rev ?d)) @ rev (takeWhile is_white_space (rev ?d))"
    by (metis rev_append rev_rev_ident)
  then have "?d = trim s @ rev (takeWhile is_white_space (rev ?d))"
    by (simp add: trim_def)
  moreover have "s = takeWhile is_white_space s @ ?d"
    by simp
  ultimately show ?thesis by metis
qed

lemma trim_last: "trim s \<noteq> [] \<Longrightarrow> \<not> is_white_space (last (trim s))"
  unfolding trim_def
  by (metis hd_dropWhile last_rev rev_is_Nil_conv)

lemma trim_hd: "trim s \<noteq> [] \<Longrightarrow> \<not> is_white_space (hd (trim s))"
proof -
  assume ne: "trim s \<noteq> []"
  let ?d = "dropWhile is_white_space s"
  have "?d = trim s @ rev (takeWhile is_white_space (rev ?d))"
    using trim_decompose [of s] by (metis same_append_eq takeWhile_dropWhile_id)
  with ne have "hd (trim s) = hd ?d" and "?d \<noteq> []"
    by (metis hd_append2, metis append_is_Nil_conv)
  then show ?thesis
    by (metis hd_dropWhile)
qed

lemma trim_idem: "trim (trim s) = trim s"
proof (cases "trim s = []")
  case True
  have "trim [] = []" by (simp add: trim_def)
  with True show ?thesis by simp
next
  case False
  then have h: "\<not> is_white_space (hd (trim s))" and l: "\<not> is_white_space (last (trim s))"
    by (simp_all add: trim_hd trim_last)
  from False h have "dropWhile is_white_space (trim s) = trim s"
    by (metis dropWhile_eq_self_iff)
  moreover from False l have "dropWhile is_white_space (rev (trim s)) = rev (trim s)"
    by (metis dropWhile_eq_self_iff hd_rev rev_is_Nil_conv)
  ultimately show ?thesis
    by (metis rev_rev_ident trim_def)
qed

lemma trim_blank: "trim (js '' '') = []"
  by (simp add: trim_def is_white_space_def js_def)

section \<open>What the handlers do at the suspension point\<close>

lemma fetch_json_failed:
  "failed r \<Longrightarrow> fetch_json fallback r = Inl (failure_message fallback r)"
  by (cases r) (simp_all add: fetch_json_def or_else_def)

lemma callBackend_failed:
  "failed r \<Longrightarrow> callBackend r = Inl (failure_message (js ''Request failed.'') r)"
  by (cases r) (simp_all add: callBackend_def or_else_def)

lemma send_start_issued:
  assumes "handleSendQuestion_start uid s = (s1, Some req)"
  shows "s1 = s\<lparr>error := None, chatStatus := js ''Thinking'' @ ellipsis, isSending := True,
           messages := messages s @
             [\<lparr>msg_id = uid, role = User, content = trim (question s), sources = None\<rparr>],
           question := []\<rparr>"
    and "req = PostChat (trim (question s)) (documentId s)"
    and "hasActiveDocument s" and "trim (question s) \<noteq> []"
  using assms by (auto simp: handleSendQuestion_start_def Let_def split: if_splits)

lemma send_start_rejected:
  assumes "handleSendQuestion_start uid s = (s1, None)"
  shows "\<not> hasActiveDocument s \<or> trim (question s) = []"
    and "messages s1 = messages s" and "documentId s1 = documentId s"
  using assms by (auto simp: handleSendQuestion_start_def Let_def split: if_splits)

lemma upload_start_issued:
  assumes "handleUpload_start s = (s1, Some req)"
  shows "s1 = s\<lparr>error := None, uploadStatus := js ''Uploading and indexing'' @ ellipsis,
                 isUploading := True\<rparr>"
  using assms
  by (auto simp: handleUpload_start_def Let_def
      split: if_splits source_type.splits option.splits)

lemma upload_start_rejected:
  assumes "handleUpload_start s = (s1, None)"
  shows "\<exists>e. s1 = s\<lparr>uploadStatus := [], error := Some e\<rparr>"
  using assms
  by (auto simp: handleUpload_start_def Let_def
      split: if_splits source_type.splits option.splits)

lemma upload_start_kind:
  assumes "handleUpload_start s = (s1, Some req)"
  shows "is_upload req" and "\<not> is_chat req"
  using assms
  by (auto simp: handleUpload_start_def Let_def
      split: if_splits source_type.splits option.splits)

lemma ready_doc_send:
  "handleSendQuestion_start (js ''u1'') ready_doc =
     (ready_doc\<lparr>error := None, chatStatus := js ''Thinking'' @ ellipsis, isSending := True,
           messages := messages ready_doc @
             [\<lparr>msg_id = js ''u1'', role = User, content = js ''What is X?'', sources = None\<rparr>],
           question := []\<rparr>,
      Some (PostChat (js ''What is X?'') (Some (js ''doc-0''))))"
  by (simp add: handleSendQuestion_start_def ready_doc_def doc_initial_def hasActiveDocument_def
      trim_def is_white_space_def js_def Let_def)

lemma ready_doc_upload:
  "handleUpload_start ready_doc =
     (ready_doc\<lparr>error := None, uploadStatus := js ''Uploading and indexing'' @ ellipsis,
                 isUploading := True\<rparr>,
      Some (PostUpload (Plain_text (js ''Paris is the capital of France.''))))"
  by (simp add: handleUpload_start_def ready_doc_def doc_initial_def
      trim_def is_white_space_def js_def Let_def)

lemma rendered_entries:
  "map entry_text (filter Boolean_entry xs) = [x. Some x \<leftarrow> xs, x \<noteq> []]"
proof (induction xs)
  case Nil
  show ?case by simp
next
  case (Cons e es)
  then show ?case by (cases e) simp_all
qed

section \<open>The guards over whole runs\<close>

lemma filter_drop_nth:
  assumes "i < length xs"
  shows "length (filter P (drop_nth i xs)) =
         length (filter P xs) - (if P (xs ! i) then 1 else 0)"
proof -
  have "xs = take i xs @ xs ! i # drop (Suc i) xs"
    using assms by (rule id_take_nth_drop)
  then have "filter P xs = filter P (take i xs) @ filter P (xs ! i # drop (Suc i) xs)"
    by (metis filter_append)
  then show ?thesis
    by (simp add: drop_nth_def)
qed

lemma doc_guard_inv_initial: "doc_guard_inv doc_initial"
  by (simp add: doc_guard_inv_def doc_initial_def)

lemma doc_guard_inv_upload_click:
  assumes "doc_guard_inv p"
  shows "doc_guard_inv (doc_step ClickUpload p)"
proof (cases "isUploading (doc_ui p)")
  case True
  then show ?thesis using assms by (simp add: click_upload_def)
next
  case False
  obtain s1 out where st: "handleUpload_start (doc_ui p) = (s1, out)"
    by (cases "handleUpload_start (doc_ui p)")
  show ?thesis
  proof (cases out)
    case None
    with st obtain e where "s1 = (doc_ui p)\<lparr>uploadStatus := [], error := Some e\<rparr>"
      using upload_start_rejected by blast
    with assms False st None show ?thesis
      by (simp add: click_upload_def doc_issue_def doc_guard_inv_def)
  next
    case (Some req)
    with st have s1: "s1 = (doc_ui p)\<lparr>error := None,
        uploadStatus := js ''Uploading and indexing'' @ ellipsis, isUploading := True\<rparr>"
      using upload_start_issued by blast
    from st Some have k: "is_upload req" "\<not> is_chat req"
      using upload_start_kind by blast+
    have "doc_step ClickUpload p = \<lparr>doc_ui = s1, doc_pending = doc_pending p @ [req]\<rparr>"
      using False st Some by (simp add: click_upload_def doc_issue_def)
    with assms False k show ?thesis
      by (simp add: doc_guard_inv_def s1)
  qed
qed

lemma doc_guard_inv_send_click:
  assumes "doc_guard_inv p"
  shows "doc_guard_inv (doc_step (ClickSend uid) p)"
proof (cases "isSending (doc_ui p)")
  case True
  then show ?thesis using assms by (simp add: click_send_def)
next
  case False
  obtain s1 out where st: "handleSendQuestion_start uid (doc_ui p) = (s1, out)"
    by (cases "handleSendQuestion_start uid (doc_ui p)")
  show ?thesis
  proof (cases out)
    case None
    with st have "isUploading s1 = isUploading (doc_ui p)" "isSending s1 = isSending (doc_ui p)"
      by (auto simp: handleSendQuestion_start_def Let_def split: if_splits)
    with assms False st None show ?thesis
      by (simp add: click_send_def doc_issue_def doc_guard_inv_def)
  next
    case (Some req)
    with st have s1: "s1 = (doc_ui p)\<lparr>error := None, chatStatus := js ''Thinking'' @ ellipsis,
           isSending := True,
           messages := messages (doc_ui p) @
             [\<lparr>msg_id = uid, role = User, content = trim (question (doc_ui p)), sources = None\<rparr>],
           question := []\<rparr>"
      and req: "req = PostChat (trim (question (doc_ui p))) (documentId (doc_ui p))"
      using send_start_issued by blast+
    with assms False st Some show ?thesis
      by (simp add: click_send_def doc_issue_def doc_guard_inv_def)
  qed
qed

lemma resume_flags:
  "isSending (handleUpload_resume r s) = isSending s"
  "isUploading (handleUpload_resume r s) = False"
  "isUploading (handleSendQuestion_resume aid r' s) = isUploading s"
  "isSending (handleSendQuestion_resume aid r' s) = False"
  by (simp_all add: handleUpload_resume_def handleSendQuestion_resume_def resetFileInputs_def
      split: sum.splits)

lemma doc_guard_inv_upload_settle:
  assumes "doc_guard_inv p"
  shows "doc_guard_inv (doc_step (UploadSettle i r) p)"
proof (cases "i < length (doc_pending p) \<and> is_upload (doc_pending p ! i)")
  case False
  then show ?thesis using assms by (auto simp: upload_settle_def)
next
  case True
  then have "\<not> is_chat (doc_pending p ! i)"
    by (cases "doc_pending p ! i") simp_all
  moreover from True have "filter is_upload (doc_pending p) \<noteq> []"
    by (metis filter_empty_conv nth_mem)
  ultimately show ?thesis
    using assms True
    by (auto simp: upload_settle_def doc_guard_inv_def filter_drop_nth resume_flags
        split: if_splits)
qed

lemma doc_guard_inv_chat_settle:
  assumes "doc_guard_inv p"
  shows "doc_guard_inv (doc_step (ChatSettle i aid r) p)"
proof (cases "i < length (doc_pending p) \<and> is_chat (doc_pending p ! i)")
  case False
  then show ?thesis using assms by (auto simp: chat_settle_def)
next
  case True
  then have "\<not> is_upload (doc_pending p ! i)"
    by (cases "doc_pending p ! i") simp_all
  moreover from True have "filter is_chat (doc_pending p) \<noteq> []"
    by (metis filter_empty_conv nth_mem)
  ultimately show ?thesis
    using assms True
    by (auto simp: chat_settle_def doc_guard_inv_def filter_drop_nth resume_flags
        split: if_splits)
qed

lemma doc_guard_inv_step:
  assumes "doc_guard_inv p"
  shows "doc_guard_inv (doc_step e p)"
proof (cases e)
  case ClickUpload
  then show ?thesis using assms doc_guard_inv_upload_click by simp
next
  case (ClickSend uid)
  then show ?thesis using assms doc_guard_inv_send_click by simp
next
  case (UploadSettle i r)
  then show ?thesis using assms doc_guard_inv_upload_settle by simp
next
  case (ChatSettle i aid r)
  then show ?thesis using assms doc_guard_inv_chat_settle by simp
qed (use assms in \<open>simp_all add: doc_guard_inv_def switchSource_def\<close>)

lemma doc_guard_inv_run:
  "doc_guard_inv p \<Longrightarrow> doc_guard_inv (doc_run es p)"
  by (induction es arbitrary: p) (simp_all add: doc_guard_inv_step)

lemma doc_guard_reachable: "doc_guard_inv (doc_run es doc_initial)"
  by (simp add: doc_guard_inv_run doc_guard_inv_initial)

lemma doc_second_operation_rejected:
  assumes "p = doc_run es doc_initial"
  shows "filter is_upload (doc_pending p) \<noteq> [] \<Longrightarrow>
           click_upload p = Inl AlreadyInFlight \<and> doc_step ClickUpload p = p"
    and "filter is_chat (doc_pending p) \<noteq> [] \<Longrightarrow>
           click_send uid p = Inl AlreadyInFlight \<and> doc_step (ClickSend uid) p = p"
    and "filter is_upload (doc_pending p) = [] \<Longrightarrow> click_upload p \<noteq> Inl AlreadyInFlight"
    and "filter is_chat (doc_pending p) = [] \<Longrightarrow> click_send uid p \<noteq> Inl AlreadyInFlight"
  using doc_guard_reachable [of es] assms
  by (auto simp: doc_guard_inv_def click_upload_def click_send_def split: if_splits)

lemma yt_flag_inv_initial: "yt_flag_inv yt_initial"
  by (simp add: yt_flag_inv_def yt_initial_def)

lemma yt_flag_inv_step:
  assumes "yt_flag_inv p"
  shows "yt_flag_inv (yt_step e p)"
proof (cases e)
  case (SetYoutubeUrl u)
  then show ?thesis using assms by (simp add: yt_flag_inv_def)
next
  case (SetQuestion q)
  then show ?thesis using assms by (simp add: yt_flag_inv_def)
next
  case ClickPrepare
  then show ?thesis
    using assms
    by (simp add: yt_flag_inv_def click_prepare_def yt_issue_def prepareVideo_start_def)
next
  case ClickAsk
  then show ?thesis
    using assms
    by (simp add: yt_flag_inv_def click_ask_def yt_issue_def askVideoQuestion_start_def)
next
  case (YtSettle i r)
  then show ?thesis
    using assms
    by (simp add: yt_flag_inv_def yt_settle_def prepareVideo_resume_def
        askVideoQuestion_resume_def split: yt_request.splits sum.splits)
qed

lemma yt_flag_inv_run: "yt_flag_inv p \<Longrightarrow> yt_flag_inv (yt_run es p)"
  by (induction es arbitrary: p) (simp_all add: yt_flag_inv_step)

lemma yt_idle_kind_proceeds:
  assumes "p = yt_run es yt_initial"
  shows "filter is_prepare (yt_pending p) = [] \<Longrightarrow> click_prepare p \<noteq> Inl AlreadyInFlight"
    and "filter is_ask (yt_pending p) = [] \<Longrightarrow> click_ask p \<noteq> Inl AlreadyInFlight"
  using yt_flag_inv_run [OF yt_flag_inv_initial, of es] assms
  by (auto simp: yt_flag_inv_def click_prepare_def click_ask_def)

lemma two_calls_eq:
  "two_calls =
     \<lparr>yt_ui = \<lparr>youtubeUrl = js ''u'', yt_question = js ''q'', answer = [], yt_sources = [],
               status = js ''Thinking'' @ ellipsis, yt_error = [], loading = Some Ask\<rparr>,
      yt_pending = [PostPrepare (js ''u''), PostAsk (js ''u'') (js ''q'')]\<rparr>"
  by (simp add: two_calls_def yt_initial_def click_prepare_def click_ask_def yt_issue_def
      prepareVideo_start_def askVideoQuestion_start_def js_def)

section \<open>Two runs of the document page\<close>

text \<open>
  The page run on two scenarios, event by event: pasted text is uploaded and indexed as
  doc-1 and a question about it is answered with one source; and /chat answers 500
  with the body "index missing", after which the next question is accepted.
\<close>

lemma paris_run:
  "doc_run
     [SwitchSource Text,
      SetPlainText (js ''Paris is the capital of France.''),
      ClickUpload,
      UploadSettle 0 (Response 200 [] (Inr \<lparr>document_id = Some (js ''doc-1'')\<rparr>)),
      SetChatQuestion (js ''What is the capital of France?''),
      ClickSend (js ''u1''),
      ChatSettle 0 (js ''a1'')
        (Response 200 []
           (Inr \<lparr>json_answer = Some (js ''Paris.''),
                 json_sources = Some [Some (js ''chunk-1'')]\<rparr>))]
     doc_initial =
   \<lparr>doc_ui = \<lparr>sourceType = Text, pdfFile = None, txtFile = None, plainText = [],
              documentId = Some (js ''doc-1''),
              messages =
                [\<lparr>msg_id = js ''u1'', role = User,
                  content = js ''What is the capital of France?'', sources = None\<rparr>,
                 \<lparr>msg_id = js ''a1'', role = Assistant,
                  content = js ''Paris.'', sources = Some [Some (js ''chunk-1'')]\<rparr>],
              question = [], uploadStatus = js ''Document ready. Start chatting!'',
              chatStatus = [], error = None, isUploading = False, isSending = False,
              fileInputKey = 1\<rparr>,
    doc_pending = []\<rparr>"
  by code_simp

lemma index_missing_run:
  "doc_run
     [ClickSend (js ''u1''),
      ChatSettle 0 (js ''a1'') (Response 500 (js ''index missing'') (Inl [])),
      SetChatQuestion (js ''again''),
      ClickSend (js ''u2'')]
     \<lparr>doc_ui = ready_doc, doc_pending = []\<rparr> =
   \<lparr>doc_ui = ready_doc
      \<lparr>messages := messages ready_doc @
         [\<lparr>msg_id = js ''u1'', role = User, content = js ''What is X?'', sources = None\<rparr>,
          \<lparr>msg_id = js ''a1'', role = Assistant,
            content = warning_sign @ js '' '' @ js ''index missing'', sources = None\<rparr>,
          \<lparr>msg_id = js ''u2'', role = User, content = js ''again'', sources = None\<rparr>],
       question := [], chatStatus := js ''Thinking'' @ ellipsis, isSending := True\<rparr>,
    doc_pending = [PostChat (js ''again'') (Some (js ''doc-0''))]\<rparr>"
  by code_simp

section \<open>The claims\<close>

subsection \<open>One call per kind\<close>

text \<open>
  Claim C1. A second operation of a kind is refused while one of that kind is in
  flight, and no second request goes out. The document variant keeps one flag per kind
  and does so in every run (\<open>doc_second_operation_rejected\<close>). The session variant
  keeps a single \<open>loading\<close> slot for both kinds, and there the claim breaks: with
  a prepare call pending, clicking Ask overwrites the slot, the Prepare button is
  enabled again, and the next click on it sends a second /prepare request while the
  first is still pending.
\<close>

theorem C1_second_prepare_is_sent:
  "filter is_prepare (yt_pending two_calls) = [PostPrepare (js ''u'')]
   \<and> click_prepare two_calls \<noteq> Inl AlreadyInFlight
   \<and> filter is_prepare (yt_pending (yt_step ClickPrepare two_calls)) =
       [PostPrepare (js ''u''), PostPrepare (js ''u'')]"
  by (simp add: two_calls_eq click_prepare_def yt_issue_def prepareVideo_start_def js_def)

subsection \<open>Failed queries\<close>

text \<open>
  Claim C2. A query that fails (transport error or a status outside 2xx): in the document
  variant the transcript ends up with exactly two more turns than before the click, the
  user turn with the trimmed question and an assistant turn whose content is the warning
  sign, a blank and the error message, and the error slot stays clear; in the session
  variant, which has no transcript, the answer and the sources are emptied, the status
  is cleared and the error slot receives the message.
\<close>

theorem C2_failed_query:
  assumes "handleSendQuestion_start uid s = (s1, Some req)"
      and "failed r" and "failed r'"
  shows "messages (handleSendQuestion_resume aid r s1) =
           messages s @
             [\<lparr>msg_id = uid, role = User, content = trim (question s), sources = None\<rparr>,
              \<lparr>msg_id = aid, role = Assistant,
                content = warning_sign @ js '' '' @ failure_message (js ''Chat request failed.'') r,
                sources = None\<rparr>]
         \<and> length (messages (handleSendQuestion_resume aid r s1)) = length (messages s) + 2
         \<and> error (handleSendQuestion_resume aid r s1) = None
         \<and> askVideoQuestion_resume r' t =
             t\<lparr>answer := [], yt_sources := [], status := [],
               yt_error := failure_message (js ''Request failed.'') r', loading := None\<rparr>"
  using assms(2,3) send_start_issued(1)[OF assms(1)]
  by (simp add: handleSendQuestion_resume_def askVideoQuestion_resume_def
      fetch_json_failed callBackend_failed)

theorem C2_failed_query_witness:
  "failed (Response 500 (js ''index missing'') (Inl []) :: answer_json fetch_result)
   \<and> failed (Rejected (js ''Failed to fetch'') :: answer_json fetch_result)
   \<and> messages (handleSendQuestion_resume (js ''a1'')
         (Response 500 (js ''index missing'') (Inl []))
         (fst (handleSendQuestion_start (js ''u1'') ready_doc))) =
       messages ready_doc @
         [\<lparr>msg_id = js ''u1'', role = User, content = js ''What is X?'', sources = None\<rparr>,
          \<lparr>msg_id = js ''a1'', role = Assistant,
            content = warning_sign @ js '' '' @ js ''index missing'', sources = None\<rparr>]
   \<and> yt_error (askVideoQuestion_resume (Rejected (js ''Failed to fetch'')) (yt_ui yt_initial)) =
       js ''Failed to fetch''"
proof -
  have f1: "failed (Response 500 (js ''index missing'') (Inl []) :: answer_json fetch_result)"
    by (simp add: response_ok_def)
  have f2: "failed (Rejected (js ''Failed to fetch'') :: answer_json fetch_result)"
    by simp
  have nonempty: "js ''index missing'' \<noteq> []"
    by (simp add: js_def)
  have tr: "trim (question ready_doc) = js ''What is X?''"
    by (simp add: ready_doc_def doc_initial_def trim_def is_white_space_def js_def)
  from C2_failed_query [OF ready_doc_send f1 f2, of "js ''a1''" "yt_ui yt_initial"]
  show ?thesis
    using f1 f2 nonempty tr by (simp add: ready_doc_send)
qed

subsection \<open>The question that is sent\<close>

text \<open>
  Claim C3, as stated for both variants, fails on the session variant: it never trims.
  A question of one blank is not rejected and is sent as it is.
\<close>

theorem C3_session_sends_untrimmed:
  "snd (askVideoQuestion_start
          ((yt_ui yt_initial)\<lparr>youtubeUrl := js ''u'', yt_question := js '' ''\<rparr>)) =
     Some (PostAsk (js ''u'') (js '' ''))
   \<and> trim (js '' '') = []
   \<and> js '' '' \<noteq> trim (js '' '')"
  by (simp add: askVideoQuestion_start_def yt_initial_def trim_def is_white_space_def js_def)

text \<open>
  Claim C3, amended. Document variant: a question that is empty after trimming issues no
  request and adds no turn; an issued request carries the trimmed question, and the
  state the click leaves behind, before the call settles, already ends with the user
  turn whose content is the trimmed question. Session variant: the request carries the
  URL and the question exactly as typed, and only an empty URL or an empty question
  issues no request.
\<close>

theorem C3_query_question:
  assumes "handleSendQuestion_start uid s = (s1, out)"
  shows "(trim (question s) = [] \<longrightarrow> out = None \<and> messages s1 = messages s)
       \<and> (\<forall>req. out = Some req \<longrightarrow>
             req = PostChat (trim (question s)) (documentId s) \<and>
             messages s1 = messages s @
               [\<lparr>msg_id = uid, role = User, content = trim (question s), sources = None\<rparr>])
       \<and> snd (askVideoQuestion_start t) =
           (if youtubeUrl t = [] \<or> yt_question t = [] then None
            else Some (PostAsk (youtubeUrl t) (yt_question t)))"
  using assms
  by (auto simp: handleSendQuestion_start_def askVideoQuestion_start_def Let_def
      split: if_splits)

theorem C3_query_question_witness:
  "handleSendQuestion_start (js ''u1'') ready_doc =
     (fst (handleSendQuestion_start (js ''u1'') ready_doc),
      Some (PostChat (js ''What is X?'') (Some (js ''doc-0''))))
   \<and> last (messages (fst (handleSendQuestion_start (js ''u1'') ready_doc))) =
       \<lparr>msg_id = js ''u1'', role = User, content = js ''What is X?'', sources = None\<rparr>
   \<and> snd (handleSendQuestion_start (js ''u2'') (ready_doc\<lparr>question := js '' ''\<rparr>)) = None"
proof -
  have tr: "trim (question ready_doc) = js ''What is X?''"
    by (simp add: ready_doc_def doc_initial_def trim_def is_white_space_def js_def)
  have bl: "trim (question (ready_doc\<lparr>question := js '' ''\<rparr>)) = []"
    by (simp add: trim_blank)
  obtain s2 out2 where
    e2: "handleSendQuestion_start (js ''u2'') (ready_doc\<lparr>question := js '' ''\<rparr>) = (s2, out2)"
    by (cases "handleSendQuestion_start (js ''u2'') (ready_doc\<lparr>question := js '' ''\<rparr>)")
  from C3_query_question [OF ready_doc_send, of "yt_ui yt_initial"]
       C3_query_question [OF e2, of "yt_ui yt_initial"]
  show ?thesis
    using tr bl e2 by (simp add: ready_doc_send)
qed

subsection \<open>Ingestion in the document variant\<close>

text \<open>
  Claim C4, as stated for every 2xx response from /upload, fails: the page stores
  \<open>data.document_id\<close> unchecked. A 2xx payload without a \<open>document_id\<close> runs the
  success branch ("Document ready. Start chatting!") and leaves the identity null, and
  a 2xx response whose payload cannot be read takes the failure branch, which leaves the
  null identity and the transcript as they were.
\<close>

theorem C4_identity_null_after_2xx:
  "response_ok 200
   \<and> documentId (handleUpload_resume (Response 200 [] (Inr \<lparr>document_id = None\<rparr>))
        (doc_ui doc_initial)) = None
   \<and> uploadStatus (handleUpload_resume (Response 200 [] (Inr \<lparr>document_id = None\<rparr>))
        (doc_ui doc_initial)) = js ''Document ready. Start chatting!''
   \<and> documentId (handleUpload_resume (Response 200 [] (Inl (js ''Unexpected end of JSON input'')))
        (doc_ui doc_initial)) = None
   \<and> messages (handleUpload_resume (Response 200 [] (Inl (js ''Unexpected end of JSON input'')))
        ready_doc) = messages ready_doc
   \<and> messages ready_doc \<noteq> []"
  by (simp add: handleUpload_resume_def fetch_json_def response_ok_def resetFileInputs_def
      doc_initial_def ready_doc_def)

text \<open>
  Claim C4, amended. After a 2xx response from /upload whose payload is read, the identity
  is whatever the payload's \<open>document_id\<close> is and the transcript is empty, whatever
  identity and transcript were there before; so when the payload carries a
  \<open>document_id\<close> string, as the backend's contract says, the identity is that string
  and is not null, and when it carries none the identity is null. After a 2xx response
  whose payload cannot be read the handler takes its failure branch: only the status
  (cleared), the error slot (set to the reader's message) and the upload flag change.
\<close>

theorem C4_successful_upload:
  assumes "response_ok st"
  shows "documentId (handleUpload_resume (Response st body (Inr d)) s) = document_id d
       \<and> messages (handleUpload_resume (Response st body (Inr d)) s) = []
       \<and> (\<forall>i. document_id d = Some i \<longrightarrow>
             documentId (handleUpload_resume (Response st body (Inr d)) s) = Some i \<and>
             documentId (handleUpload_resume (Response st body (Inr d)) s) \<noteq> None)
       \<and> (document_id d = None \<longrightarrow>
             documentId (handleUpload_resume (Response st body (Inr d)) s) = None)
       \<and> handleUpload_resume (Response st body (Inl m)) s =
           s\<lparr>uploadStatus := [], error := Some m, isUploading := False\<rparr>"
  using assms by (simp add: handleUpload_resume_def fetch_json_def resetFileInputs_def)

theorem C4_successful_upload_witness:
  "response_ok 200
   \<and> documentId ready_doc = Some (js ''doc-0'') \<and> messages ready_doc \<noteq> []
   \<and> documentId (handleUpload_resume
         (Response 200 [] (Inr \<lparr>document_id = Some (js ''doc-1'')\<rparr>)) ready_doc) =
       Some (js ''doc-1'')
   \<and> messages (handleUpload_resume
         (Response 200 [] (Inr \<lparr>document_id = Some (js ''doc-1'')\<rparr>)) ready_doc) = []
   \<and> documentId (handleUpload_resume
         (Response 200 [] (Inr \<lparr>document_id = None\<rparr>)) ready_doc) = None"
proof -
  have ok: "response_ok 200"
    by (simp add: response_ok_def)
  have was: "documentId ready_doc = Some (js ''doc-0'')" "messages ready_doc \<noteq> []"
    by (simp_all add: ready_doc_def doc_initial_def)
  from C4_successful_upload [OF ok, where d = "\<lparr>document_id = Some (js ''doc-1'')\<rparr>"
         and s = ready_doc and body = "[]"]
       C4_successful_upload [OF ok, where d = "\<lparr>document_id = None\<rparr>"
         and s = ready_doc and body = "[]"]
  show ?thesis
    using ok was by simp
qed

text \<open>
  Claim C5. A failed ingestion, started while no upload is in flight. If validation fails,
  the click changes nothing but the status, which is cleared, and the error slot, which
  is set. If the request goes out and the call fails (transport error or a status outside
  2xx), the state after the handler has finished is the state before the click with the
  status cleared and the error slot set to the failure's message. In both cases the
  identity and the transcript are what they were; the failure branch never touches them,
  whatever state it resumes in.
\<close>

theorem C5_failed_upload:
  assumes "\<not> isUploading s"
  shows "(handleUpload_start s = (s1, None) \<longrightarrow>
            (\<exists>e. s1 = s\<lparr>uploadStatus := [], error := Some e\<rparr>) \<and>
            documentId s1 = documentId s \<and> messages s1 = messages s)
       \<and> (handleUpload_start s = (s1, Some req) \<and> failed r \<longrightarrow>
            handleUpload_resume r s1 =
              s\<lparr>uploadStatus := [], error := Some (failure_message (js ''Upload failed.'') r)\<rparr> \<and>
            documentId (handleUpload_resume r s1) = documentId s \<and>
            messages (handleUpload_resume r s1) = messages s)
       \<and> (failed r \<longrightarrow>
            documentId (handleUpload_resume r s2) = documentId s2 \<and>
            messages (handleUpload_resume r s2) = messages s2)"
proof (intro conjI impI)
  assume a: "handleUpload_start s = (s1, None)"
  then obtain e where e: "s1 = s\<lparr>uploadStatus := [], error := Some e\<rparr>"
    using upload_start_rejected by blast
  then show "\<exists>e. s1 = s\<lparr>uploadStatus := [], error := Some e\<rparr>"
    by blast
  show "documentId s1 = documentId s" and "messages s1 = messages s"
    by (simp_all add: e)
next
  assume a: "handleUpload_start s = (s1, Some req) \<and> failed r"
  then have s1: "s1 = s\<lparr>error := None, uploadStatus := js ''Uploading and indexing'' @ ellipsis,
                 isUploading := True\<rparr>"
    using upload_start_issued by blast
  from a have f: "fetch_json (js ''Upload failed.'') r = Inl (failure_message (js ''Upload failed.'') r)"
    by (simp add: fetch_json_failed)
  show e: "handleUpload_resume r s1 =
              s\<lparr>uploadStatus := [], error := Some (failure_message (js ''Upload failed.'') r)\<rparr>"
    using assms by (simp add: handleUpload_resume_def f s1)
  show "documentId (handleUpload_resume r s1) = documentId s"
    by (simp add: e)
  show "messages (handleUpload_resume r s1) = messages s"
    by (simp add: e)
next
  assume f: "failed r"
  show "documentId (handleUpload_resume r s2) = documentId s2"
    and "messages (handleUpload_resume r s2) = messages s2"
    by (simp_all add: handleUpload_resume_def fetch_json_failed [OF f])
qed

theorem C5_failed_upload_witness:
  "\<not> isUploading ready_doc
   \<and> failed (Response 500 (js ''boom'') (Inl []) :: upload_json fetch_result)
   \<and> handleUpload_resume (Response 500 (js ''boom'') (Inl []))
        (fst (handleUpload_start ready_doc)) =
      ready_doc\<lparr>uploadStatus := [], error := Some (js ''boom'')\<rparr>
   \<and> handleUpload_start (ready_doc\<lparr>plainText := js '' ''\<rparr>) =
      (ready_doc\<lparr>plainText := js '' '', uploadStatus := [],
         error := Some (js ''Paste some text before uploading.'')\<rparr>, None)"
proof -
  have idle: "\<not> isUploading ready_doc"
    by (simp add: ready_doc_def doc_initial_def)
  have f: "failed (Response 500 (js ''boom'') (Inl []) :: upload_json fetch_result)"
    by (simp add: response_ok_def)
  have ne: "js ''boom'' \<noteq> []"
    by (simp add: js_def)
  have v: "handleUpload_start (ready_doc\<lparr>plainText := js '' ''\<rparr>) =
      (ready_doc\<lparr>plainText := js '' '', uploadStatus := [],
         error := Some (js ''Paste some text before uploading.'')\<rparr>, None)"
    by (simp add: handleUpload_start_def ready_doc_def doc_initial_def trim_def
        is_white_space_def js_def Let_def)
  from C5_failed_upload [OF idle, of "fst (handleUpload_start ready_doc)"
      "PostUpload (Plain_text (js ''Paris is the capital of France.''))"
      "Response 500 (js ''boom'') (Inl [])"]
  show ?thesis
    using idle f ne v by (simp add: ready_doc_upload)
qed

subsection \<open>Error messages\<close>

text \<open>
  Claim C6. A response whose status is outside 200 to 299 takes the failure branch of
  every handler, and the message is the body text when that is non-empty and otherwise
  the fallback of the operation: "Request failed." for /prepare and /ask, "Upload failed."
  for /upload, "Chat request failed." for /chat. The session variant and /upload put the
  message in the error slot; /chat puts it, after the warning sign and a blank, in the
  content of the assistant turn it appends.
\<close>

theorem C6_non_2xx_message:
  assumes "\<not> response_ok st"
  shows "prepareVideo_resume (Response st body ja) t =
           t\<lparr>status := [],
             yt_error := (if body \<noteq> [] then body else js ''Request failed.''),
             loading := None\<rparr>
       \<and> askVideoQuestion_resume (Response st body jb) t =
           t\<lparr>answer := [], yt_sources := [], status := [],
             yt_error := (if body \<noteq> [] then body else js ''Request failed.''),
             loading := None\<rparr>
       \<and> handleUpload_resume (Response st body jc) s =
           s\<lparr>uploadStatus := [],
             error := Some (if body \<noteq> [] then body else js ''Upload failed.''),
             isUploading := False\<rparr>
       \<and> handleSendQuestion_resume aid (Response st body jd) s =
           s\<lparr>messages := messages s @
               [\<lparr>msg_id = aid, role = Assistant,
                 content = warning_sign @ js '' '' @
                   (if body \<noteq> [] then body else js ''Chat request failed.''),
                 sources = None\<rparr>],
             chatStatus := [], isSending := False\<rparr>"
  using assms
  by (simp add: prepareVideo_resume_def askVideoQuestion_resume_def handleUpload_resume_def
      handleSendQuestion_resume_def callBackend_def fetch_json_def or_else_def)

theorem C6_non_2xx_message_witness:
  "\<not> response_ok 500 \<and> \<not> response_ok 199 \<and> \<not> response_ok 300
   \<and> yt_error (prepareVideo_resume
         (Response 500 (js ''index missing'') (Inl []) :: answer_json fetch_result)
         (yt_ui yt_initial))
       = js ''index missing''
   \<and> yt_error (askVideoQuestion_resume (Response 500 [] (Inl [])) (yt_ui yt_initial))
       = js ''Request failed.''
   \<and> error (handleUpload_resume (Response 500 [] (Inl [])) ready_doc) = Some (js ''Upload failed.'')
   \<and> content (last (messages
         (handleSendQuestion_resume (js ''a1'') (Response 500 [] (Inl [])) ready_doc)))
       = warning_sign @ js '' '' @ js ''Chat request failed.''"
proof -
  have no: "\<not> response_ok 500" "\<not> response_ok 199" "\<not> response_ok 300"
    by (simp_all add: response_ok_def)
  have ne: "js ''index missing'' \<noteq> []"
    by (simp add: js_def)
  show ?thesis
    using no ne by (simp add: C6_non_2xx_message [OF no(1)])
qed

subsection \<open>Status and error\<close>

text \<open>
  Claim C7. Status and error are never both non-empty. The handlers clear one when they
  set the other on every path that follows a network call, but the validation path of
  the session variant sets the error and returns without clearing the status: after a
  successful prepare, emptying the URL and clicking Prepare leaves the status
  "Video ready. Ask away!" next to the error "Paste a YouTube URL first.".
\<close>

theorem C7_status_and_error_together:
  "status (yt_ui (yt_run
      [SetYoutubeUrl (js ''u''), ClickPrepare,
       YtSettle 0 (Response 200 [] (Inr \<lparr>json_answer = None, json_sources = None\<rparr>)),
       SetYoutubeUrl [], ClickPrepare] yt_initial)) = js ''Video ready. Ask away!''
   \<and> yt_error (yt_ui (yt_run
      [SetYoutubeUrl (js ''u''), ClickPrepare,
       YtSettle 0 (Response 200 [] (Inr \<lparr>json_answer = None, json_sources = None\<rparr>)),
       SetYoutubeUrl [], ClickPrepare] yt_initial)) = js ''Paste a YouTube URL first.''
   \<and> js ''Video ready. Ask away!'' \<noteq> []
   \<and> js ''Paste a YouTube URL first.'' \<noteq> []"
  by (simp add: yt_initial_def click_prepare_def yt_issue_def
      prepareVideo_start_def js_def yt_settle_def drop_nth_def prepareVideo_resume_def
      callBackend_def response_ok_def)

subsection \<open>Independence of the two kinds\<close>

text \<open>
  Claim C8. The flag of one kind is not touched by the other kind. An idle kind may always
  begin (\<open>yt_idle_kind_proceeds\<close>, \<open>doc_second_operation_rejected\<close>), but in the
  session variant both kinds share the \<open>loading\<close> slot: starting the ask replaces
  "index" by "ask" while the prepare call is pending, and the completion of the prepare
  call then resets the slot to null while the ask call is still pending.
\<close>

theorem C8_prepare_completion_clears_ask_flag:
  "loading (yt_ui (yt_run [SetYoutubeUrl (js ''u''), SetQuestion (js ''q''), ClickPrepare]
      yt_initial)) = Some Index
   \<and> loading (yt_ui two_calls) = Some Ask
   \<and> filter is_prepare (yt_pending two_calls) \<noteq> []
   \<and> yt_pending (yt_step (YtSettle 0 (Response 200 []
         (Inr \<lparr>json_answer = None, json_sources = None\<rparr>))) two_calls) =
       [PostAsk (js ''u'') (js ''q'')]
   \<and> loading (yt_ui (yt_step (YtSettle 0 (Response 200 []
         (Inr \<lparr>json_answer = None, json_sources = None\<rparr>))) two_calls)) = None"
  by (simp add: two_calls_eq yt_initial_def click_prepare_def yt_issue_def
      prepareVideo_start_def js_def yt_settle_def drop_nth_def prepareVideo_resume_def
      callBackend_def response_ok_def)

subsection \<open>Rendering of sources\<close>

text \<open>
  Claim C9, as stated for every successful query, fails on the session variant: its
  answer card does not filter falsy entries, it shows "Transcript chunk" in their place.
  The sources ["", "Ch.1", null] render as three items, not as ["Ch.1"].
\<close>

theorem C9_session_renders_placeholders:
  "yt_rendered_sources
     (askVideoQuestion_resume
        (Response 200 []
           (Inr \<lparr>json_answer = Some (js ''A''),
                 json_sources = Some [Some [], Some (js ''Ch.1''), None]\<rparr>))
        (yt_ui yt_initial)) =
     [js ''Transcript chunk'', js ''Ch.1'', js ''Transcript chunk'']
   \<and> [js ''Transcript chunk'', js ''Ch.1'', js ''Transcript chunk''] \<noteq> [js ''Ch.1'']"
  by (simp add: askVideoQuestion_resume_def callBackend_def response_ok_def
      yt_rendered_sources_def yt_initial_def js_def)

text \<open>
  Claim C9, amended. After a successful query (2xx with a readable payload) both variants
  store the sources exactly as the backend sent them (the empty sequence when absent).
  The document variant renders the non-empty strings among them, in order; the session
  variant renders nothing when the answer is empty and otherwise one item per entry,
  with "Transcript chunk" for an empty or null entry. When the backend sent no sources,
  neither variant renders any.
\<close>

theorem C9_sources_rendering:
  assumes "response_ok st"
      and "raw = (case json_sources d of None \<Rightarrow> [] | Some xs \<Rightarrow> xs)"
      and "m = last (messages (handleSendQuestion_resume aid (Response st body (Inr d)) s))"
      and "t' = askVideoQuestion_resume (Response st body (Inr d)) t"
  shows "sources m = Some raw
       \<and> rendered_sources m = [x. Some x \<leftarrow> raw, x \<noteq> []]
       \<and> yt_sources t' = raw
       \<and> yt_rendered_sources t' =
           (if answer t' = [] then []
            else map (\<lambda>e. case e of None \<Rightarrow> js ''Transcript chunk''
                           | Some x \<Rightarrow> if x = [] then js ''Transcript chunk'' else x) raw)
       \<and> (raw = [] \<longrightarrow> rendered_sources m = [] \<and> yt_rendered_sources t' = [])"
proof -
  have m: "sources m = Some raw"
    using assms(1) by (simp add: assms(2,3) handleSendQuestion_resume_def fetch_json_def)
  have r: "rendered_sources m = [x. Some x \<leftarrow> raw, x \<noteq> []]"
    by (simp only: rendered_sources_def m option.case rendered_entries)
  have y: "yt_sources t' = raw"
    using assms(1) by (simp add: assms(2,4) askVideoQuestion_resume_def callBackend_def)
  have item: "(if Boolean_entry e then entry_text e else js ''Transcript chunk'') =
      (case e of None \<Rightarrow> js ''Transcript chunk''
       | Some x \<Rightarrow> if x = [] then js ''Transcript chunk'' else x)" for e
    by (cases e) simp_all
  have yr: "yt_rendered_sources t' =
           (if answer t' = [] then []
            else map (\<lambda>e. case e of None \<Rightarrow> js ''Transcript chunk''
                           | Some x \<Rightarrow> if x = [] then js ''Transcript chunk'' else x) raw)"
    by (simp add: yt_rendered_sources_def y item)
  have z: "raw = [] \<longrightarrow> rendered_sources m = [] \<and> yt_rendered_sources t' = []"
    by (simp add: r yr)
  from m r y yr z show ?thesis by blast
qed

theorem C9_sources_rendering_witness:
  "response_ok 200
   \<and> sources (last (messages (handleSendQuestion_resume (js ''a1'')
        (Response 200 []
           (Inr \<lparr>json_answer = Some (js ''A''),
                 json_sources = Some [Some [], Some (js ''Ch.1''), None]\<rparr>))
        ready_doc))) = Some [Some [], Some (js ''Ch.1''), None]
   \<and> rendered_sources (last (messages (handleSendQuestion_resume (js ''a1'')
        (Response 200 []
           (Inr \<lparr>json_answer = Some (js ''A''),
                 json_sources = Some [Some [], Some (js ''Ch.1''), None]\<rparr>))
        ready_doc))) = [js ''Ch.1'']"
proof -
  have ok: "response_ok 200"
    by (simp add: response_ok_def)
  have ne: "js ''Ch.1'' \<noteq> []"
    by (simp add: js_def)
  from C9_sources_rendering [OF ok refl refl refl,
      where d = "\<lparr>json_answer = Some (js ''A''),
                json_sources = Some [Some [], Some (js ''Ch.1''), None]\<rparr>"
        and aid = "js ''a1''" and body = "[]" and s = ready_doc and t = "yt_ui yt_initial"]
  show ?thesis
    using ok ne by simp
qed

text \<open>
  Claim C10. In the session variant a failed query empties the answer and the sources
  that were displayed, whatever they were, so no source is rendered any more, and sets
  the error slot to the failure's message.
\<close>

theorem C10_session_failure_clears_answer:
  assumes "failed r"
  shows "answer (askVideoQuestion_resume r t) = []
       \<and> yt_sources (askVideoQuestion_resume r t) = []
       \<and> yt_rendered_sources (askVideoQuestion_resume r t) = []
       \<and> yt_error (askVideoQuestion_resume r t) = failure_message (js ''Request failed.'') r"
  using assms
  by (simp add: askVideoQuestion_resume_def callBackend_failed yt_rendered_sources_def)

theorem C10_session_failure_clears_answer_witness:
  "failed (Response 503 [] (Inl []) :: answer_json fetch_result)
   \<and> answer (askVideoQuestion_resume (Response 503 [] (Inl []))
        ((yt_ui yt_initial)\<lparr>answer := js ''Paris.'', yt_sources := [Some (js ''chunk-1'')]\<rparr>)) = []
   \<and> yt_sources (askVideoQuestion_resume (Response 503 [] (Inl []))
        ((yt_ui yt_initial)\<lparr>answer := js ''Paris.'', yt_sources := [Some (js ''chunk-1'')]\<rparr>)) = []
   \<and> yt_error (askVideoQuestion_resume (Response 503 [] (Inl []))
        ((yt_ui yt_initial)\<lparr>answer := js ''Paris.'', yt_sources := [Some (js ''chunk-1'')]\<rparr>))
       = js ''Request failed.''"
proof -
  have f: "failed (Response 503 [] (Inl []) :: answer_json fetch_result)"
    by (simp add: response_ok_def)
  from C10_session_failure_clears_answer [OF f,
      of "(yt_ui yt_initial)\<lparr>answer := js ''Paris.'', yt_sources := [Some (js ''chunk-1'')]\<rparr>"]
  show ?thesis
    using f by simp
qed

end
